theory Spec2Isabelle
  imports Complex_Main
begin

section \<open>Values of type double\<close>

text \<open>
  The program computes with C++ \<open>double\<close>. A finite double is modelled by the real number
  it stands for: rounding and overflow are not modelled. What a division by zero leaves
  behind is modelled: \<open>NonFinite\<close> stands for the three values \<open>+inf\<close>, \<open>-inf\<close> and
  \<open>NaN\<close> together. The class is closed under the four operations: a sum, difference or
  product with a non-finite operand is non-finite (\<open>inf * 0\<close> and \<open>inf - inf\<close> are NaN), and
  so is a non-finite value divided by anything. A finite value divided by an infinity
  would be zero; the program never does that (see \<open>dbl_diff_NonFinite_prod\<close> below: its only
  division with a computed denominator has a non-finite numerator whenever the
  denominator is non-finite). Two values of the class are equal here; that says only
  that both are non-finite, not that \<open>==\<close> holds of them (it never holds of a NaN).
\<close>

datatype dbl = Fin real | NonFinite

instantiation dbl :: "{comm_monoid_add, minus, uminus, times, inverse}"
begin

definition zero_dbl :: dbl where
  "zero_dbl = Fin 0"

fun plus_dbl :: "dbl \<Rightarrow> dbl \<Rightarrow> dbl" where
  "plus_dbl (Fin x) (Fin y) = Fin (x + y)"
| "plus_dbl _ _ = NonFinite"

fun minus_dbl :: "dbl \<Rightarrow> dbl \<Rightarrow> dbl" where
  "minus_dbl (Fin x) (Fin y) = Fin (x - y)"
| "minus_dbl _ _ = NonFinite"

fun uminus_dbl :: "dbl \<Rightarrow> dbl" where
  "uminus_dbl (Fin x) = Fin (- x)"
| "uminus_dbl NonFinite = NonFinite"

fun times_dbl :: "dbl \<Rightarrow> dbl \<Rightarrow> dbl" where
  "times_dbl (Fin x) (Fin y) = Fin (x * y)"
| "times_dbl _ _ = NonFinite"

fun divide_dbl :: "dbl \<Rightarrow> dbl \<Rightarrow> dbl" where
  "divide_dbl (Fin x) (Fin y) = (if y = 0 then NonFinite else Fin (x / y))"
| "divide_dbl _ _ = NonFinite"

definition inverse_dbl :: "dbl \<Rightarrow> dbl" where
  "inverse_dbl x = divide (Fin 1) x"

instance
proof
  fix x y z :: dbl
  show "x + y + z = x + (y + z)"
    by (cases x; cases y; cases z) simp_all
  show "x + y = y + x"
    by (cases x; cases y) simp_all
  show "0 + x = x"
    by (cases x) (simp_all add: zero_dbl_def)
qed

end

section \<open>Problem constants and analytical functions\<close>

definition dx :: real where
  "dx = 1"

definition dy :: real where
  "dy = 1"

definition dxy :: real where
  "dxy = 0"

text \<open>The constant \<open>a\<close> of the source; renamed, a one-letter constant would capture variables.\<close>

definition a_const :: real where
  "a_const = 10"

text \<open>The analytical solution.\<close>

definition C :: "real \<Rightarrow> real \<Rightarrow> real" where
  "C x y = sin (a_const * x) * sin (a_const * y)"

definition source :: "real \<Rightarrow> real \<Rightarrow> real" where
  "source x y =
     - a_const * a_const *
       (2 * dxy * cos (a_const * x) * cos (a_const * y)
        - (dx + dy) * sin (a_const * x) * sin (a_const * y))"

datatype BoundCondType = BC_DIR | BC_NEUM

fun bc_code :: "BoundCondType \<Rightarrow> int" where
  "bc_code BC_DIR = 1"
| "bc_code BC_NEUM = 2"

section \<open>The mesh, as the program reads it\<close>

text \<open>
  The mesh library is not part of the program. A mesh is the list of its cells and the
  list of its faces, in iteration order; a cell or face object carries its handle and the
  geometry the program asks it for. Coordinates, areas and volumes are finite. The back
  cell of a face is used by the program without a validity check and is a cell here; the
  front cell may be invalid (\<open>None\<close>).
\<close>

type_synonym handle = nat

type_synonym vec2 = "real \<times> real"

type_synonym mat2 = "(real \<times> real) \<times> (real \<times> real)"

record cell =
  cid :: handle
  cBarycenter :: vec2
  Volume :: real

record face =
  fid :: handle
  Boundary :: bool
  BackCell :: cell
  FrontCell :: "cell option"
  fBarycenter :: vec2
  UnitNormal :: vec2
  Area :: real

record mesh =
  cells :: "cell list"
  faces :: "face list"

section \<open>Tags\<close>

text \<open>
  One field per tag of class \<open>Problem\<close>. A dense tag (created with sparsity \<open>NONE\<close>) has a
  zero-initialised value on every cell; a sparse tag has a value only where one was
  stored, and reading it elsewhere yields a fresh zero. The tags are new when
  \<open>initProblem\<close> creates them: the mesh file brings no data under their names. The
  tensor tag, the boundary value and the source only ever receive finite numbers, and
  are real; the interface conductivity is the quotient of line 162, a \<open>dbl\<close>.
\<close>

record tags =
  tagConc :: "handle \<Rightarrow> real"
  tagD :: "handle \<Rightarrow> real \<times> real \<times> real"
  tagBCtype :: "handle \<rightharpoonup> int"
  tagBCval :: "handle \<rightharpoonup> real"
  tagSource :: "handle \<rightharpoonup> real"
  tagConcAn :: "handle \<rightharpoonup> real"
  tagGlobInd :: "handle \<Rightarrow> int"
  tagBCcond :: "handle \<rightharpoonup> dbl"

definition create_tags :: tags where
  "create_tags =
     \<lparr>tagConc = (\<lambda>h. 0), tagD = (\<lambda>h. (0, 0, 0)), tagBCtype = Map.empty,
      tagBCval = Map.empty, tagSource = Map.empty, tagConcAn = Map.empty,
      tagGlobInd = (\<lambda>h. 0), tagBCcond = Map.empty\<rparr>"

definition Integer :: "(handle \<rightharpoonup> int) \<Rightarrow> handle \<Rightarrow> int" where
  "Integer t h = (case t h of None \<Rightarrow> 0 | Some v \<Rightarrow> v)"

definition Real :: "(handle \<rightharpoonup> 'v::zero) \<Rightarrow> handle \<Rightarrow> 'v" where
  "Real t h = (case t h of None \<Rightarrow> 0 | Some v \<Rightarrow> v)"

section \<open>One-sided transmissibility\<close>

fun calc_tf :: "mat2 \<Rightarrow> vec2 \<Rightarrow> vec2 \<Rightarrow> dbl" where
  "calc_tf ((D00, D01), (D10, D11)) (nf0, nf1) (dA0, dA1) =
     (let DdA0 = D00 * dA0 + D01 * dA1;
          DdA1 = D10 * dA0 + D11 * dA1
      in Fin (DdA0 * nf0 + DdA1 * nf1) / Fin (dA0 * dA0 + dA1 * dA1))"

text \<open>The 2x2 tensor of a cell, from the three values \<open>(Dx, Dy, Dxy)\<close> of its tag.\<close>

fun tensor :: "real \<times> real \<times> real \<Rightarrow> mat2" where
  "tensor (Dx, Dy, Dxy) = ((Dx, Dxy), (Dxy, Dy))"

fun displacement :: "vec2 \<Rightarrow> vec2 \<Rightarrow> vec2" where
  "displacement (xf0, xf1) (xA0, xA1) = (xf0 - xA0, xf1 - xA1)"

section \<open>Field initializer\<close>

datatype error = InvalidFrontCell | SolverFailed string

text \<open>Both fatal paths call \<open>exit(1)\<close>.\<close>

definition exit_status :: "error \<Rightarrow> int" where
  "exit_status e = 1"

text \<open>
  The cell loop of \<open>initProblem\<close>; the counter \<open>glob_ind\<close> is passed along. It is a 32-bit
  \<open>int\<close> in the source and an unbounded integer here: it counts the cells of a mesh whose
  library addresses them with 32-bit handles that also encode the kind of element, so
  it stays far below \<open>2^31\<close>.
\<close>

definition init_cell :: "cell \<Rightarrow> int \<Rightarrow> tags \<Rightarrow> tags" where
  "init_cell c glob_ind st =
     (case cBarycenter c of (xc0, xc1) \<Rightarrow>
        st\<lparr>tagD := (tagD st)(cid c := (dx, dy, dxy)),
           tagConcAn := (tagConcAn st)(cid c \<mapsto> C xc0 xc1),
           tagSource := (tagSource st)(cid c \<mapsto> source xc0 xc1),
           tagGlobInd := (tagGlobInd st)(cid c := glob_ind)\<rparr>)"

fun init_cells :: "cell list \<Rightarrow> int \<Rightarrow> tags \<Rightarrow> tags" where
  "init_cells [] glob_ind st = st"
| "init_cells (c # cs) glob_ind st = init_cells cs (glob_ind + 1) (init_cell c glob_ind st)"

text \<open>
  The interface conductivity of an internal face with back cell \<open>cA\<close> and front cell \<open>cB\<close>
  (lines 138 to 162): the value stored in \<open>tagBCcond\<close>.
\<close>

definition harmonic :: "dbl \<Rightarrow> dbl \<Rightarrow> dbl" where
  "harmonic tfA tfB = tfA * tfB / (tfA - tfB)"

definition face_conductivity :: "tags \<Rightarrow> face \<Rightarrow> cell \<Rightarrow> cell \<Rightarrow> dbl" where
  "face_conductivity st f cA cB =
     (let xf = fBarycenter f;
          xA = cBarycenter cA;
          xB = cBarycenter cB;
          nf = UnitNormal f;
          dA = displacement xf xA;
          dB = displacement xf xB;
          tfA = calc_tf (tensor (tagD st (cid cA))) nf dA;
          tfB = calc_tf (tensor (tagD st (cid cB))) nf dB
      in harmonic tfA tfB)"

definition init_face :: "face \<Rightarrow> tags \<Rightarrow> error + tags" where
  "init_face f st =
     (if Boundary f then
        (case fBarycenter f of (xf0, xf1) \<Rightarrow>
           Inr (st\<lparr>tagBCtype := (tagBCtype st)(fid f \<mapsto> bc_code BC_DIR),
                   tagBCval := (tagBCval st)(fid f \<mapsto> C xf0 xf1)\<rparr>))
      else
        (case FrontCell f of
           None \<Rightarrow> Inl InvalidFrontCell
         | Some cB \<Rightarrow>
             Inr (st\<lparr>tagBCcond :=
                        (tagBCcond st)(fid f \<mapsto> face_conductivity st f (BackCell f) cB)\<rparr>)))"

fun init_faces :: "face list \<Rightarrow> tags \<Rightarrow> error + tags" where
  "init_faces [] st = Inr st"
| "init_faces (f # fs) st =
     (case init_face f st of Inl e \<Rightarrow> Inl e | Inr st' \<Rightarrow> init_faces fs st')"

definition initProblem :: "mesh \<Rightarrow> error + tags" where
  "initProblem m = init_faces (faces m) (init_cells (cells m) 0 create_tags)"

section \<open>System assembler\<close>

text \<open>
  The sparse matrix and the vectors are functions of the index; an entry that was never
  written reads as zero, as a fresh entry of a sparse row does. The index interval
  \<open>[0, N)\<close> that \<open>run\<close> sets is not checked by the assembler.
\<close>

type_synonym matrix = "int \<Rightarrow> int \<Rightarrow> dbl"

type_synonym vector = "int \<Rightarrow> dbl"

definition zero_matrix :: matrix where
  "zero_matrix = (\<lambda>i j. 0)"

definition zero_vector :: vector where
  "zero_vector = (\<lambda>i. 0)"

text \<open>\<open>M[i][j] += v\<close> and \<open>M[i][j] -= v\<close>.\<close>

definition add_entry :: "matrix \<Rightarrow> int \<Rightarrow> int \<Rightarrow> dbl \<Rightarrow> matrix" where
  "add_entry M i j v = M(i := (M i)(j := M i j + v))"

definition sub_entry :: "matrix \<Rightarrow> int \<Rightarrow> int \<Rightarrow> dbl \<Rightarrow> matrix" where
  "sub_entry M i j v = M(i := (M i)(j := M i j - v))"

text \<open>The body of the face loop of \<open>assembleGlobalSystem\<close>.\<close>

definition assemble_face :: "tags \<Rightarrow> face \<Rightarrow> matrix \<times> vector \<Rightarrow> error + matrix \<times> vector" where
  "assemble_face st f sys =
     (case sys of (M, rhs) \<Rightarrow>
        let nf = UnitNormal f;
            xf = fBarycenter f
        in if Boundary f then
             (let BCtype = Integer (tagBCtype st) (fid f)
              in if BCtype = bc_code BC_NEUM then Inr (M, rhs)
                 else if BCtype = bc_code BC_DIR then
                   (let cA = BackCell f;
                        xA = cBarycenter cA;
                        dA = displacement xf xA;
                        DA = tensor (tagD st (cid cA));
                        t = calc_tf DA nf dA;
                        gid = tagGlobInd st (cid cA)
                    in Inr (sub_entry M gid gid (t * Fin (Area f)),
                            rhs(gid := rhs gid - t * Fin (Real (tagBCval st) (fid f)) * Fin (Area f))))
                 else Inr (M, rhs))
           else
             (case FrontCell f of
                None \<Rightarrow> Inl InvalidFrontCell
              | Some cB \<Rightarrow>
                  (let cA = BackCell f;
                       t = Real (tagBCcond st) (fid f);
                       idA = tagGlobInd st (cid cA);
                       idB = tagGlobInd st (cid cB);
                       M1 = add_entry M idA idA (t * Fin (Area f));
                       M2 = sub_entry M1 idA idB (t * Fin (Area f));
                       M3 = sub_entry M2 idB idA (t * Fin (Area f));
                       M4 = add_entry M3 idB idB (t * Fin (Area f))
                   in Inr (M4, rhs))))"

fun assemble_faces :: "tags \<Rightarrow> face list \<Rightarrow> matrix \<times> vector \<Rightarrow> error + matrix \<times> vector" where
  "assemble_faces st [] sys = Inr sys"
| "assemble_faces st (f # fs) sys =
     (case assemble_face st f sys of Inl e \<Rightarrow> Inl e | Inr sys' \<Rightarrow> assemble_faces st fs sys')"

text \<open>The cell loop: the source term.\<close>

fun assemble_sources :: "tags \<Rightarrow> cell list \<Rightarrow> vector \<Rightarrow> vector" where
  "assemble_sources st [] rhs = rhs"
| "assemble_sources st (c # cs) rhs =
     (let i = tagGlobInd st (cid c)
      in assemble_sources st cs (rhs(i := rhs i - Fin (Real (tagSource st) (cid c)) * Fin (Volume c))))"

definition assembleGlobalSystem :: "mesh \<Rightarrow> tags \<Rightarrow> matrix \<times> vector \<Rightarrow> error + matrix \<times> vector" where
  "assembleGlobalSystem m st sys =
     (case assemble_faces st (faces m) sys of
        Inl e \<Rightarrow> Inl e
      | Inr (M, rhs) \<Rightarrow> Inr (M, assemble_sources st (cells m) rhs))"

section \<open>Solve and verify driver\<close>

text \<open>
  The linear solver is not part of the program: it is a parameter. It returns the success
  flag, the iteration count, the residual, the reason of a failure and the solution
  vector (with finite entries).
\<close>

record solver_result =
  solved :: bool
  Iterations :: int
  Residual :: real
  GetReason :: string
  sol :: "nat \<Rightarrow> real"

type_synonym solver = "matrix \<Rightarrow> vector \<Rightarrow> solver_result"

text \<open>What the program prints, one item per output statement.\<close>

datatype out_item =
  PrintN nat
  | PrintIterations int
  | PrintResidual real
  | PrintSolverFailed string
  | PrintInvalidFrontCell
  | PrintErrorCnorm real
  | PrintErrorL2norm real
  | PrintSuccess
  | PrintUsage

fun message :: "error \<Rightarrow> out_item" where
  "message InvalidFrontCell = PrintInvalidFrontCell"
| "message (SolverFailed reason) = PrintSolverFailed reason"

text \<open>
  The last loop of \<open>run\<close>: the solution is written onto the cells and the two error norms
  are accumulated. \<open>static_cast<unsigned>\<close> of a 32-bit \<open>int\<close> is its value modulo \<open>2^32\<close>.
\<close>

fun write_back :: "(nat \<Rightarrow> real) \<Rightarrow> cell list \<Rightarrow> tags \<times> real \<times> real \<Rightarrow> tags \<times> real \<times> real" where
  "write_back x [] acc = acc"
| "write_back x (c # cs) (st, normC, normL2) =
     (let ind = nat (tagGlobInd st (cid c) mod 2 ^ 32);
          st' = st\<lparr>tagConc := (tagConc st)(cid c := x ind)\<rparr>;
          diff = \<bar>tagConc st' (cid c) - Real (tagConcAn st') (cid c)\<bar>
      in write_back x cs (st', max normC diff, normL2 + diff * Volume c))"

text \<open>
  The result of \<open>run\<close>: the output, the error it exited with (if it did), the tags as they
  are when it returns or exits, the systems handed to the solver, and whether the mesh
  was saved.
\<close>

record run_result =
  r_out :: "out_item list"
  r_exit :: "error option"
  r_tags :: tags
  r_systems :: "(matrix \<times> vector) list"
  r_saved :: bool

definition run :: "solver \<Rightarrow> mesh \<Rightarrow> tags \<Rightarrow> run_result" where
  "run S m st =
     (let N = length (cells m)
      in case assembleGlobalSystem m st (zero_matrix, zero_vector) of
           Inl e \<Rightarrow>
             \<lparr>r_out = [PrintN N, message e], r_exit = Some e, r_tags = st,
              r_systems = [], r_saved = False\<rparr>
         | Inr (A, rhs) \<Rightarrow>
             (let res = S A rhs;
                  printed = [PrintN N, PrintIterations (Iterations res), PrintResidual (Residual res)]
              in if \<not> solved res then
                   \<lparr>r_out = printed @ [message (SolverFailed (GetReason res))],
                    r_exit = Some (SolverFailed (GetReason res)), r_tags = st,
                    r_systems = [(A, rhs)], r_saved = False\<rparr>
                 else
                   (case write_back (sol res) (cells m) (st, 0, 0) of
                      (st', normC, normL2) \<Rightarrow>
                        \<lparr>r_out = printed @ [PrintErrorCnorm normC, PrintErrorL2norm normL2],
                         r_exit = None, r_tags = st',
                         r_systems = [(A, rhs)], r_saved = True\<rparr>)))"

text \<open>
  The body of the loop of \<open>main\<close> for one loaded mesh, and \<open>main\<close> on the meshes named by
  its arguments. The result of \<open>main\<close> is the output and the exit status.
\<close>

record mesh_result =
  m_out :: "out_item list"
  m_exit :: "error option"
  m_systems :: "(matrix \<times> vector) list"
  m_saved :: "tags option"

definition process_mesh :: "solver \<Rightarrow> mesh \<Rightarrow> mesh_result" where
  "process_mesh S m =
     (case initProblem m of
        Inl e \<Rightarrow> \<lparr>m_out = [message e], m_exit = Some e, m_systems = [], m_saved = None\<rparr>
      | Inr st \<Rightarrow>
          (let r = run S m st
           in \<lparr>m_out = r_out r @ (if r_exit r = None then [PrintSuccess] else []),
               m_exit = r_exit r, m_systems = r_systems r,
               m_saved = (if r_saved r then Some (r_tags r) else None)\<rparr>))"

fun main_loop :: "solver \<Rightarrow> mesh list \<Rightarrow> out_item list \<times> int" where
  "main_loop S [] = ([], 0)"
| "main_loop S (m # ms) =
     (let r = process_mesh S m
      in case m_exit r of
           Some e \<Rightarrow> (m_out r, exit_status e)
         | None \<Rightarrow> (case main_loop S ms of (out, status) \<Rightarrow> (m_out r @ out, status)))"

definition main :: "solver \<Rightarrow> mesh list \<Rightarrow> out_item list \<times> int" where
  "main S ms = (if ms = [] then ([PrintUsage], - 1) else main_loop S ms)"

section \<open>Notions the properties are stated with\<close>

text \<open>The product "conductivity times area" of an internal face, as the assembler reads it.\<close>

definition conductance :: "tags \<Rightarrow> face \<Rightarrow> dbl" where
  "conductance st f = Real (tagBCcond st) (fid f) * Fin (Area f)"

text \<open>An internal face links the rows \<open>i\<close> and \<open>j\<close>: they are the global indices of its two cells.\<close>

definition links :: "tags \<Rightarrow> int \<Rightarrow> int \<Rightarrow> face \<Rightarrow> bool" where
  "links st i j f =
     (\<not> Boundary f \<and>
      (case FrontCell f of
         None \<Rightarrow> False
       | Some cB \<Rightarrow>
           (tagGlobInd st (cid (BackCell f)) = i \<and> tagGlobInd st (cid cB) = j) \<or>
           (tagGlobInd st (cid (BackCell f)) = j \<and> tagGlobInd st (cid cB) = i)))"

section \<open>Three meshes\<close>

text \<open>
  Two unit squares side by side, \<open>[0,1] \<times> [0,1]\<close> and \<open>[1,2] \<times> [0,1]\<close>: one internal face
  and six boundary faces. The unit normal of a face points out of its back cell.
\<close>

definition sq_left :: cell where
  "sq_left = \<lparr>cid = 0, cBarycenter = (1/2, 1/2), Volume = 1\<rparr>"

definition sq_right :: cell where
  "sq_right = \<lparr>cid = 1, cBarycenter = (3/2, 1/2), Volume = 1\<rparr>"

definition sq_mid :: face where
  "sq_mid =
     \<lparr>fid = 0, Boundary = False, BackCell = sq_left, FrontCell = Some sq_right,
      fBarycenter = (1, 1/2), UnitNormal = (1, 0), Area = 1\<rparr>"

definition sq_left_bottom :: face where
  "sq_left_bottom =
     \<lparr>fid = 1, Boundary = True, BackCell = sq_left, FrontCell = None,
      fBarycenter = (1/2, 0), UnitNormal = (0, - 1), Area = 1\<rparr>"

definition sq_left_side :: face where
  "sq_left_side =
     \<lparr>fid = 2, Boundary = True, BackCell = sq_left, FrontCell = None,
      fBarycenter = (0, 1/2), UnitNormal = (- 1, 0), Area = 1\<rparr>"

definition sq_left_top :: face where
  "sq_left_top =
     \<lparr>fid = 3, Boundary = True, BackCell = sq_left, FrontCell = None,
      fBarycenter = (1/2, 1), UnitNormal = (0, 1), Area = 1\<rparr>"

definition sq_right_bottom :: face where
  "sq_right_bottom =
     \<lparr>fid = 4, Boundary = True, BackCell = sq_right, FrontCell = None,
      fBarycenter = (3/2, 0), UnitNormal = (0, - 1), Area = 1\<rparr>"

definition sq_right_side :: face where
  "sq_right_side =
     \<lparr>fid = 5, Boundary = True, BackCell = sq_right, FrontCell = None,
      fBarycenter = (2, 1/2), UnitNormal = (1, 0), Area = 1\<rparr>"

definition sq_right_top :: face where
  "sq_right_top =
     \<lparr>fid = 6, Boundary = True, BackCell = sq_right, FrontCell = None,
      fBarycenter = (3/2, 1), UnitNormal = (0, 1), Area = 1\<rparr>"

definition two_squares :: mesh where
  "two_squares =
     \<lparr>cells = [sq_left, sq_right],
      faces = [sq_mid, sq_left_bottom, sq_left_side, sq_left_top,
               sq_right_bottom, sq_right_side, sq_right_top]\<rparr>"

text \<open>
  The square \<open>[0,2] \<times> [0,2]\<close> cut into the unit square \<open>[0,1] \<times> [0,1]\<close> and the L-shaped
  hexagon around it, with corners \<open>(1,0), (2,0), (2,2), (0,2), (0,1), (1,1)\<close>, area 3 and
  barycenter \<open>(7/6, 7/6)\<close>. The two cells share two faces: the right side and the top
  side of the unit square.
\<close>

definition corner_square :: cell where
  "corner_square = \<lparr>cid = 0, cBarycenter = (1/2, 1/2), Volume = 1\<rparr>"

definition corner_hexagon :: cell where
  "corner_hexagon = \<lparr>cid = 1, cBarycenter = (7/6, 7/6), Volume = 3\<rparr>"

definition corner_right :: face where
  "corner_right =
     \<lparr>fid = 0, Boundary = False, BackCell = corner_square, FrontCell = Some corner_hexagon,
      fBarycenter = (1, 1/2), UnitNormal = (1, 0), Area = 1\<rparr>"

definition corner_top :: face where
  "corner_top =
     \<lparr>fid = 1, Boundary = False, BackCell = corner_square, FrontCell = Some corner_hexagon,
      fBarycenter = (1/2, 1), UnitNormal = (0, 1), Area = 1\<rparr>"

definition corner_square_bottom :: face where
  "corner_square_bottom =
     \<lparr>fid = 2, Boundary = True, BackCell = corner_square, FrontCell = None,
      fBarycenter = (1/2, 0), UnitNormal = (0, - 1), Area = 1\<rparr>"

definition corner_square_side :: face where
  "corner_square_side =
     \<lparr>fid = 3, Boundary = True, BackCell = corner_square, FrontCell = None,
      fBarycenter = (0, 1/2), UnitNormal = (- 1, 0), Area = 1\<rparr>"

definition corner_hexagon_bottom :: face where
  "corner_hexagon_bottom =
     \<lparr>fid = 4, Boundary = True, BackCell = corner_hexagon, FrontCell = None,
      fBarycenter = (3/2, 0), UnitNormal = (0, - 1), Area = 1\<rparr>"

definition corner_hexagon_right :: face where
  "corner_hexagon_right =
     \<lparr>fid = 5, Boundary = True, BackCell = corner_hexagon, FrontCell = None,
      fBarycenter = (2, 1), UnitNormal = (1, 0), Area = 2\<rparr>"

definition corner_hexagon_top :: face where
  "corner_hexagon_top =
     \<lparr>fid = 6, Boundary = True, BackCell = corner_hexagon, FrontCell = None,
      fBarycenter = (1, 2), UnitNormal = (0, 1), Area = 2\<rparr>"

definition corner_hexagon_left :: face where
  "corner_hexagon_left =
     \<lparr>fid = 7, Boundary = True, BackCell = corner_hexagon, FrontCell = None,
      fBarycenter = (0, 3/2), UnitNormal = (- 1, 0), Area = 1\<rparr>"

definition corner_mesh :: mesh where
  "corner_mesh =
     \<lparr>cells = [corner_square, corner_hexagon],
      faces = [corner_right, corner_top, corner_square_bottom, corner_square_side,
               corner_hexagon_bottom, corner_hexagon_right, corner_hexagon_top,
               corner_hexagon_left]\<rparr>"

text \<open>
  Two hook-shaped cells of area 2. The upper one is \<open>[0,1] \<times> [0,1]\<close> together with the bar
  \<open>[0,3] \<times> [1,4/3]\<close>, barycenter \<open>(1, 5/6)\<close>; the lower one is its image under the half
  turn about \<open>(1, 1/2)\<close>: \<open>[1,2] \<times> [0,1]\<close> together with the bar \<open>[-1,2] \<times> [-1/3,0]\<close>,
  barycenter \<open>(1, 1/6)\<close>. They share three faces; both barycenters lie on the line
  \<open>x = 1\<close> that carries the shared face from \<open>(1,0)\<close> to \<open>(1,1)\<close>.
\<close>

definition hook_upper :: cell where
  "hook_upper = \<lparr>cid = 0, cBarycenter = (1, 5/6), Volume = 2\<rparr>"

definition hook_lower :: cell where
  "hook_lower = \<lparr>cid = 1, cBarycenter = (1, 1/6), Volume = 2\<rparr>"

definition hook_mid :: face where
  "hook_mid =
     \<lparr>fid = 0, Boundary = False, BackCell = hook_upper, FrontCell = Some hook_lower,
      fBarycenter = (1, 1/2), UnitNormal = (1, 0), Area = 1\<rparr>"

definition hook_shelf :: face where
  "hook_shelf =
     \<lparr>fid = 1, Boundary = False, BackCell = hook_lower, FrontCell = Some hook_upper,
      fBarycenter = (3/2, 1), UnitNormal = (0, 1), Area = 1\<rparr>"

definition hook_floor :: face where
  "hook_floor =
     \<lparr>fid = 2, Boundary = False, BackCell = hook_lower, FrontCell = Some hook_upper,
      fBarycenter = (1/2, 0), UnitNormal = (0, 1), Area = 1\<rparr>"

definition hook_upper_under :: face where
  "hook_upper_under =
     \<lparr>fid = 3, Boundary = True, BackCell = hook_upper, FrontCell = None,
      fBarycenter = (5/2, 1), UnitNormal = (0, - 1), Area = 1\<rparr>"

definition hook_upper_right :: face where
  "hook_upper_right =
     \<lparr>fid = 4, Boundary = True, BackCell = hook_upper, FrontCell = None,
      fBarycenter = (3, 7/6), UnitNormal = (1, 0), Area = 1/3\<rparr>"

definition hook_upper_top :: face where
  "hook_upper_top =
     \<lparr>fid = 5, Boundary = True, BackCell = hook_upper, FrontCell = None,
      fBarycenter = (3/2, 4/3), UnitNormal = (0, 1), Area = 3\<rparr>"

definition hook_upper_left :: face where
  "hook_upper_left =
     \<lparr>fid = 6, Boundary = True, BackCell = hook_upper, FrontCell = None,
      fBarycenter = (0, 2/3), UnitNormal = (- 1, 0), Area = 4/3\<rparr>"

definition hook_lower_bottom :: face where
  "hook_lower_bottom =
     \<lparr>fid = 7, Boundary = True, BackCell = hook_lower, FrontCell = None,
      fBarycenter = (1/2, - 1/3), UnitNormal = (0, - 1), Area = 3\<rparr>"

definition hook_lower_right :: face where
  "hook_lower_right =
     \<lparr>fid = 8, Boundary = True, BackCell = hook_lower, FrontCell = None,
      fBarycenter = (2, 1/3), UnitNormal = (1, 0), Area = 4/3\<rparr>"

definition hook_lower_over :: face where
  "hook_lower_over =
     \<lparr>fid = 9, Boundary = True, BackCell = hook_lower, FrontCell = None,
      fBarycenter = (- 1/2, 0), UnitNormal = (0, 1), Area = 1\<rparr>"

definition hook_lower_left :: face where
  "hook_lower_left =
     \<lparr>fid = 10, Boundary = True, BackCell = hook_lower, FrontCell = None,
      fBarycenter = (- 1, - 1/6), UnitNormal = (- 1, 0), Area = 1/3\<rparr>"

definition hook_mesh :: mesh where
  "hook_mesh =
     \<lparr>cells = [hook_upper, hook_lower],
      faces = [hook_mid, hook_shelf, hook_floor, hook_upper_under, hook_upper_right,
               hook_upper_top, hook_upper_left, hook_lower_bottom, hook_lower_right,
               hook_lower_over, hook_lower_left]\<rparr>"

text \<open>A mesh whose internal face has no front cell.\<close>

definition torn_face :: face where
  "torn_face = sq_mid\<lparr>FrontCell := None\<rparr>"

definition torn_mesh :: mesh where
  "torn_mesh = \<lparr>cells = [sq_left, sq_right], faces = [sq_left_bottom, torn_face, sq_right_side]\<rparr>"

text \<open>Two stand-ins for the solver: one that fails, one that reports success.\<close>

definition stalled_solver :: solver where
  "stalled_solver A rhs =
     \<lparr>solved = False, Iterations = 1000, Residual = 1,
      GetReason = ''maximum iterations reached'', sol = (\<lambda>i. 0)\<rparr>"

definition zero_solver :: solver where
  "zero_solver A rhs =
     \<lparr>solved = True, Iterations = 1, Residual = 0, GetReason = [], sol = (\<lambda>i. 0)\<rparr>"

section \<open>Arithmetic of double values\<close>

lemma dbl_diff_NonFinite_prod: "x - y = NonFinite \<Longrightarrow> x * y = (NonFinite :: dbl)"
  by (cases x; cases y) simp_all

lemma dbl_diff_zero [simp]: "(x::dbl) - 0 = x"
  by (cases x) (simp_all add: zero_dbl_def)

lemma dbl_zero_diff [simp]: "0 - (x::dbl) = - x"
  by (cases x) (simp_all add: zero_dbl_def)

lemma dbl_diff_diff: "(x::dbl) - y - z = x - (y + z)"
  by (cases x; cases y; cases z) simp_all

section \<open>The transmissibility and the interface conductivity\<close>



lemma face_conductivity_cong:
  "tagD st = tagD st' \<Longrightarrow> face_conductivity st f cA cB = face_conductivity st' f cA cB"
  by (simp add: face_conductivity_def)

section \<open>The field initializer\<close>

subsection \<open>The cell loop\<close>

lemma tagGlobInd_init_cell [simp]:
  "tagGlobInd (init_cell c g st) = (tagGlobInd st)(cid c := g)"
  by (simp add: init_cell_def split: prod.splits)

lemma tagD_init_cell [simp]:
  "tagD (init_cell c g st) = (tagD st)(cid c := (dx, dy, dxy))"
  by (simp add: init_cell_def split: prod.splits)

lemma init_cell_face_tags [simp]:
  "tagBCtype (init_cell c g st) = tagBCtype st"
  "tagBCval (init_cell c g st) = tagBCval st"
  "tagBCcond (init_cell c g st) = tagBCcond st"
  "tagConc (init_cell c g st) = tagConc st"
  by (simp_all add: init_cell_def split: prod.splits)

lemma tagGlobInd_init_cells_other:
  "h \<notin> cid ` set cs \<Longrightarrow> tagGlobInd (init_cells cs g st) h = tagGlobInd st h"
  by (induction cs arbitrary: g st) auto

lemma init_cells_face_tags [simp]:
  "tagBCtype (init_cells cs g st) = tagBCtype st"
  "tagBCval (init_cells cs g st) = tagBCval st"
  "tagBCcond (init_cells cs g st) = tagBCcond st"
  "tagConc (init_cells cs g st) = tagConc st"
  by (induction cs arbitrary: g st) auto

lemma tagD_init_cells_cases:
  "tagD (init_cells cs g st) h = (if h \<in> cid ` set cs then (dx, dy, dxy) else tagD st h)"
  by (induction cs arbitrary: g st) simp_all

lemma tagD_init_cells:
  "c \<in> set cs \<Longrightarrow> tagD (init_cells cs g st) (cid c) = (dx, dy, dxy)"
  by (simp add: tagD_init_cells_cases)

lemma init_cells_globind:
  "distinct (map cid cs) \<Longrightarrow>
   map (\<lambda>c. tagGlobInd (init_cells cs g st) (cid c)) cs = map (\<lambda>k. g + int k) [0..<length cs]"
proof (induction cs arbitrary: g st)
  case Nil
  then show ?case by simp
next
  case (Cons c cs)
  have hd: "tagGlobInd (init_cells cs (g + 1) (init_cell c g st)) (cid c) = g"
    using Cons.prems by (simp add: tagGlobInd_init_cells_other)
  have tl: "map (\<lambda>c'. tagGlobInd (init_cells cs (g + 1) (init_cell c g st)) (cid c')) cs
            = map (\<lambda>k. g + 1 + int k) [0..<length cs]"
    using Cons.prems by (intro Cons.IH) simp
  have "[0..<length (c # cs)] = 0 # map Suc [0..<length cs]"
    by (simp add: upt_conv_Cons map_Suc_upt del: upt_Suc)
  then show ?case
    by (simp add: hd tl comp_def add.assoc del: upt_Suc)
qed

subsection \<open>The face loop\<close>

lemma init_face_cell_tags:
  "init_face f st = Inr st' \<Longrightarrow>
     tagGlobInd st' = tagGlobInd st \<and> tagD st' = tagD st \<and> tagConc st' = tagConc st
     \<and> tagSource st' = tagSource st \<and> tagConcAn st' = tagConcAn st"
  by (auto simp: init_face_def split: if_splits prod.splits option.splits)

lemma init_faces_cell_tags:
  "init_faces fs st = Inr st' \<Longrightarrow>
     tagGlobInd st' = tagGlobInd st \<and> tagD st' = tagD st \<and> tagConc st' = tagConc st
     \<and> tagSource st' = tagSource st \<and> tagConcAn st' = tagConcAn st"
proof (induction fs arbitrary: st)
  case Nil
  then show ?case by simp
next
  case (Cons f fs)
  then show ?case
    by (auto split: sum.splits dest!: init_face_cell_tags)
qed

lemma init_face_Inr_iff:
  "(\<exists>st'. init_face f st = Inr st') \<longleftrightarrow> (Boundary f \<or> FrontCell f \<noteq> None)"
  by (auto simp: init_face_def split: prod.splits option.splits)

lemma init_face_Inl:
  "init_face f st = Inl e \<longleftrightarrow> (\<not> Boundary f \<and> FrontCell f = None \<and> e = InvalidFrontCell)"
  by (auto simp: init_face_def split: prod.splits option.splits)

lemma init_faces_Inl:
  "init_faces fs st = Inl e \<longleftrightarrow>
     ((\<exists>f \<in> set fs. \<not> Boundary f \<and> FrontCell f = None) \<and> e = InvalidFrontCell)"
proof (induction fs arbitrary: st)
  case Nil
  then show ?case by simp
next
  case (Cons f fs)
  show ?case
  proof (cases "init_face f st")
    case (Inl e')
    then have "\<not> Boundary f \<and> FrontCell f = None \<and> e' = InvalidFrontCell"
      by (simp add: init_face_Inl)
    then show ?thesis using Inl by auto
  next
    case (Inr st')
    then have "Boundary f \<or> FrontCell f \<noteq> None"
      using init_face_Inr_iff by blast
    then show ?thesis using Inr Cons.IH [of st'] by auto
  qed
qed

lemma init_faces_Inr_iff:
  "(\<exists>st'. init_faces fs st = Inr st') \<longleftrightarrow> (\<forall>f \<in> set fs. Boundary f \<or> FrontCell f \<noteq> None)"
proof -
  have "(\<exists>st'. init_faces fs st = Inr st') \<longleftrightarrow> \<not> (\<exists>e. init_faces fs st = Inl e)"
    by (cases "init_faces fs st") auto
  then show ?thesis by (auto simp: init_faces_Inl)
qed

lemma init_face_other:
  "init_face f st = Inr st' \<Longrightarrow> h \<noteq> fid f \<Longrightarrow>
     tagBCtype st' h = tagBCtype st h \<and> tagBCval st' h = tagBCval st h \<and> tagBCcond st' h = tagBCcond st h"
  by (auto simp: init_face_def split: if_splits prod.splits option.splits)

lemma init_faces_other:
  "init_faces fs st = Inr st' \<Longrightarrow> h \<notin> fid ` set fs \<Longrightarrow>
     tagBCtype st' h = tagBCtype st h \<and> tagBCval st' h = tagBCval st h \<and> tagBCcond st' h = tagBCcond st h"
proof (induction fs arbitrary: st)
  case Nil
  then show ?case by simp
next
  case (Cons f fs)
  from Cons.prems(1) obtain st1 where 1: "init_face f st = Inr st1" and 2: "init_faces fs st1 = Inr st'"
    by (auto split: sum.splits)
  from Cons.prems(2) have "h \<noteq> fid f" "h \<notin> fid ` set fs" by auto
  then show ?case
    using init_face_other [OF 1, of h] Cons.IH [OF 2] by simp
qed

lemma init_face_boundary:
  "init_face f st = Inr st' \<Longrightarrow> Boundary f \<Longrightarrow>
     tagBCtype st' (fid f) = Some (bc_code BC_DIR)
     \<and> tagBCval st' (fid f) = Some (C (fst (fBarycenter f)) (snd (fBarycenter f)))"
  by (auto simp: init_face_def split: prod.splits)

lemma init_faces_boundary:
  "init_faces fs st = Inr st' \<Longrightarrow> distinct (map fid fs) \<Longrightarrow> f \<in> set fs \<Longrightarrow> Boundary f \<Longrightarrow>
     tagBCtype st' (fid f) = Some (bc_code BC_DIR)
     \<and> tagBCval st' (fid f) = Some (C (fst (fBarycenter f)) (snd (fBarycenter f)))"
proof (induction fs arbitrary: st)
  case Nil
  then show ?case by simp
next
  case (Cons g fs)
  from Cons.prems(1) obtain st1 where 1: "init_face g st = Inr st1" and 2: "init_faces fs st1 = Inr st'"
    by (auto split: sum.splits)
  show ?case
  proof (cases "f \<in> set fs")
    case True
    then show ?thesis using Cons.IH [OF 2] Cons.prems by simp
  next
    case False
    with Cons.prems have fg: "f = g" and "fid g \<notin> fid ` set fs" by auto
    then show ?thesis
      using init_faces_other [OF 2, of "fid g"] init_face_boundary [OF 1] Cons.prems(4) by simp
  qed
qed

lemma init_face_types:
  "init_face f st = Inr st' \<Longrightarrow> tagBCtype st' h = tagBCtype st h \<or> tagBCtype st' h = Some (bc_code BC_DIR)"
  by (auto simp: init_face_def split: if_splits prod.splits option.splits)

lemma init_faces_types:
  "init_faces fs st = Inr st' \<Longrightarrow> tagBCtype st' h = tagBCtype st h \<or> tagBCtype st' h = Some (bc_code BC_DIR)"
proof (induction fs arbitrary: st)
  case Nil
  then show ?case by simp
next
  case (Cons g fs)
  from Cons.prems(1) obtain st1 where 1: "init_face g st = Inr st1" and 2: "init_faces fs st1 = Inr st'"
    by (auto split: sum.splits)
  show ?case using init_face_types [OF 1, of h] Cons.IH [OF 2] by auto
qed

lemma init_face_internal:
  "init_face f st = Inr st' \<Longrightarrow> \<not> Boundary f \<Longrightarrow> FrontCell f = Some cB \<Longrightarrow>
     tagBCcond st' (fid f) = Some (face_conductivity st f (BackCell f) cB)"
  by (auto simp: init_face_def)

lemma init_faces_internal:
  "init_faces fs st = Inr st' \<Longrightarrow> distinct (map fid fs) \<Longrightarrow> f \<in> set fs \<Longrightarrow>
   \<not> Boundary f \<Longrightarrow> FrontCell f = Some cB \<Longrightarrow>
     tagBCcond st' (fid f) = Some (face_conductivity st f (BackCell f) cB)"
proof (induction fs arbitrary: st)
  case Nil
  then show ?case by simp
next
  case (Cons g fs)
  from Cons.prems(1) obtain st1 where 1: "init_face g st = Inr st1" and 2: "init_faces fs st1 = Inr st'"
    by (auto split: sum.splits)
  have D: "tagD st1 = tagD st"
    using init_face_cell_tags [OF 1] by simp
  show ?case
  proof (cases "f \<in> set fs")
    case True
    then have "tagBCcond st' (fid f) = Some (face_conductivity st1 f (BackCell f) cB)"
      using Cons.IH [OF 2] Cons.prems by simp
    then show ?thesis
      by (simp add: face_conductivity_cong [OF D])
  next
    case False
    with Cons.prems have fg: "f = g" and "fid g \<notin> fid ` set fs" by auto
    then show ?thesis
      using init_faces_other [OF 2, of "fid g"] init_face_internal [OF 1] Cons.prems(4,5) by simp
  qed
qed

text \<open>
What the initializer leaves on a mesh whose faces have different handles.
\<close>

lemma initProblem_state:
  assumes "initProblem m = Inr st" "distinct (map fid (faces m))"
  shows "tagD st = tagD (init_cells (cells m) 0 create_tags)"
    and "tagGlobInd st = tagGlobInd (init_cells (cells m) 0 create_tags)"
    and "\<forall>f \<in> set (faces m). Boundary f \<longrightarrow>
           tagBCtype st (fid f) = Some (bc_code BC_DIR)
           \<and> tagBCval st (fid f) = Some (C (fst (fBarycenter f)) (snd (fBarycenter f)))"
    and "\<forall>f \<in> set (faces m). \<not> Boundary f \<longrightarrow>
           (case FrontCell f of None \<Rightarrow> True
            | Some cB \<Rightarrow> tagBCcond st (fid f) =
                Some (face_conductivity (init_cells (cells m) 0 create_tags) f (BackCell f) cB))"
proof -
  note init = assms(1) [unfolded initProblem_def]
  show "tagD st = tagD (init_cells (cells m) 0 create_tags)"
    and "tagGlobInd st = tagGlobInd (init_cells (cells m) 0 create_tags)"
    using init_faces_cell_tags [OF init] by simp_all
  show "\<forall>f \<in> set (faces m). Boundary f \<longrightarrow>
           tagBCtype st (fid f) = Some (bc_code BC_DIR)
           \<and> tagBCval st (fid f) = Some (C (fst (fBarycenter f)) (snd (fBarycenter f)))"
    using init_faces_boundary [OF init assms(2)] by blast
  show "\<forall>f \<in> set (faces m). \<not> Boundary f \<longrightarrow>
           (case FrontCell f of None \<Rightarrow> True
            | Some cB \<Rightarrow> tagBCcond st (fid f) =
                Some (face_conductivity (init_cells (cells m) 0 create_tags) f (BackCell f) cB))"
    using init_faces_internal [OF init assms(2)] by (auto split: option.splits)
qed

subsection \<open>Global indices\<close>

lemma init_globind_list:
  assumes "distinct (map cid (cells m))" "initProblem m = Inr st"
  shows "map (tagGlobInd st) (map cid (cells m)) = map int [0..<length (cells m)]"
proof -
  have "tagGlobInd st = tagGlobInd (init_cells (cells m) 0 create_tags)"
    using assms(2) by (auto simp: initProblem_def dest!: init_faces_cell_tags)
  then show ?thesis
    using init_cells_globind [OF assms(1), of 0 create_tags] by (simp add: comp_def)
qed

lemma init_globind_inj:
  assumes "distinct (map cid (cells m))" "initProblem m = Inr st"
  shows "inj_on (tagGlobInd st) (cid ` set (cells m))"
proof -
  have "distinct (map int [0..<length (cells m)])"
    by (simp add: distinct_map)
  then have "distinct (map (tagGlobInd st) (map cid (cells m)))"
    by (simp only: init_globind_list [OF assms])
  then have "inj_on (tagGlobInd st) (set (map cid (cells m)))"
    by (simp only: distinct_map)
  then show ?thesis by simp
qed

section \<open>The assembler\<close>

lemma assemble_face_Inr:
  "Boundary f \<or> FrontCell f \<noteq> None \<Longrightarrow> \<exists>M r. assemble_face st f sys = Inr (M, r)"
  by (cases sys) (auto simp: assemble_face_def Let_def split: option.splits)

lemma assemble_faces_Inr:
  "\<forall>f \<in> set fs. Boundary f \<or> FrontCell f \<noteq> None \<Longrightarrow> \<exists>M r. assemble_faces st fs sys = Inr (M, r)"
proof (induction fs arbitrary: sys)
  case Nil
  then show ?case by (cases sys) simp
next
  case (Cons f fs)
  then obtain M r where "assemble_face st f sys = Inr (M, r)"
    using assemble_face_Inr [of f st sys] by auto
  then show ?case using Cons.IH [of "(M, r)"] Cons.prems by simp
qed

lemma assemble_after_init:
  assumes "initProblem m = Inr st"
  shows "\<exists>A rhs. assembleGlobalSystem m st' sys = Inr (A, rhs)"
proof -
  have "\<forall>f \<in> set (faces m). Boundary f \<or> FrontCell f \<noteq> None"
    using assms init_faces_Inr_iff unfolding initProblem_def by blast
  from assemble_faces_Inr [OF this, of st' sys] show ?thesis
    by (auto simp: assembleGlobalSystem_def)
qed

subsection \<open>Entries off the diagonal\<close>

lemma links_sym: "links st i j f = links st j i f"
  by (auto simp: links_def split: option.splits)

lemma assemble_face_offdiag:
  assumes "assemble_face st f (M, r) = Inr (M', r')" "i \<noteq> j"
  shows "M' i j = (if links st i j f then M i j - conductance st f else M i j)"
proof (cases "Boundary f")
  case True
  then show ?thesis
    using assms by (auto simp: assemble_face_def Let_def sub_entry_def links_def split: if_splits)
next
  case False
  show ?thesis
  proof (cases "FrontCell f")
    case None
    then show ?thesis using assms False by (simp add: assemble_face_def)
  next
    case (Some cB)
    then show ?thesis
      using assms False
      by (auto simp: assemble_face_def Let_def sub_entry_def add_entry_def links_def conductance_def)
  qed
qed

lemma assemble_faces_offdiag:
  "assemble_faces st fs (M0, r0) = Inr (M, r) \<Longrightarrow> i \<noteq> j \<Longrightarrow>
     M i j = M0 i j - (\<Sum>f\<leftarrow>filter (links st i j) fs. conductance st f)"
proof (induction fs arbitrary: M0 r0)
  case Nil
  then show ?case by simp
next
  case (Cons f fs)
  from Cons.prems(1) obtain M1 r1 where 1: "assemble_face st f (M0, r0) = Inr (M1, r1)"
    and 2: "assemble_faces st fs (M1, r1) = Inr (M, r)"
    by (auto split: sum.splits)
  show ?case
    using Cons.IH [OF 2 Cons.prems(2)] assemble_face_offdiag [OF 1 Cons.prems(2)]
    by (simp add: dbl_diff_diff)
qed

lemma assemble_offdiag:
  assumes "assembleGlobalSystem m st (zero_matrix, zero_vector) = Inr (M, rhs)" "i \<noteq> j"
  shows "M i j = - (\<Sum>f\<leftarrow>filter (links st i j) (faces m). conductance st f)"
proof -
  from assms(1) obtain r where "assemble_faces st (faces m) (zero_matrix, zero_vector) = Inr (M, r)"
    by (auto simp: assembleGlobalSystem_def split: sum.splits)
  from assemble_faces_offdiag [OF this assms(2)] show ?thesis
    by (simp add: zero_matrix_def)
qed

lemma assemble_symmetric:
  assumes "assembleGlobalSystem m st (zero_matrix, zero_vector) = Inr (M, rhs)"
  shows "M i j = M j i"
proof (cases "i = j")
  case True
  then show ?thesis by simp
next
  case False
  then have "j \<noteq> i" by simp
  have "filter (links st i j) (faces m) = filter (links st j i) (faces m)"
    by (rule filter_cong) (simp_all add: links_sym)
  then show ?thesis
    using assemble_offdiag [OF assms False] assemble_offdiag [OF assms \<open>j \<noteq> i\<close>] by simp
qed

lemma internal_face_step:
  assumes "\<not> Boundary f" "FrontCell f = Some cB"
    and "idA = tagGlobInd st (cid (BackCell f))" "idB = tagGlobInd st (cid cB)" "idA \<noteq> idB"
  shows "\<exists>M'. assemble_face st f (M0, r0) = Inr (M', r0)
           \<and> M' idA idA = M0 idA idA + conductance st f
           \<and> M' idB idB = M0 idB idB + conductance st f
           \<and> M' idA idB = M0 idA idB - conductance st f
           \<and> M' idB idA = M0 idB idA - conductance st f
           \<and> (\<forall>i j. (i \<noteq> idA \<and> i \<noteq> idB) \<or> (j \<noteq> idA \<and> j \<noteq> idB) \<longrightarrow> M' i j = M0 i j)"
  using assms
  by (auto simp: assemble_face_def Let_def sub_entry_def add_entry_def conductance_def)

subsection \<open>The face loop, face by face\<close>

lemma assemble_faces_append:
  "assemble_faces st (fs1 @ fs2) sys =
     (case assemble_faces st fs1 sys of Inl e \<Rightarrow> Inl e | Inr sys' \<Rightarrow> assemble_faces st fs2 sys')"
  by (induction fs1 arbitrary: sys) (auto split: sum.splits)

lemma assemble_face_dirichlet:
  assumes "Boundary f" "Integer (tagBCtype st) (fid f) = bc_code BC_DIR"
  shows "assemble_face st f (M, rhs) =
           Inr (sub_entry M (tagGlobInd st (cid (BackCell f))) (tagGlobInd st (cid (BackCell f)))
                  (calc_tf (tensor (tagD st (cid (BackCell f)))) (UnitNormal f)
                     (displacement (fBarycenter f) (cBarycenter (BackCell f))) * Fin (Area f)),
                rhs(tagGlobInd st (cid (BackCell f)) :=
                  rhs (tagGlobInd st (cid (BackCell f)))
                  - calc_tf (tensor (tagD st (cid (BackCell f)))) (UnitNormal f)
                      (displacement (fBarycenter f) (cBarycenter (BackCell f)))
                    * Fin (Real (tagBCval st) (fid f)) * Fin (Area f)))"
  using assms by (simp add: assemble_face_def Let_def)

subsection \<open>Sums in the order of the faces\<close>

lemma foldl_plus_sum_list:
  "foldl (\<lambda>s x. s + f x) a xs = a + (\<Sum>x\<leftarrow>xs. (f x :: dbl))"
  by (induction xs arbitrary: a) (simp_all add: add.assoc)

lemma sum_list_Fin:
  "\<forall>x \<in> set xs. f x \<noteq> NonFinite \<Longrightarrow> \<exists>v. (\<Sum>x\<leftarrow>xs. f x) = Fin v"
proof (induction xs)
  case Nil
  then show ?case by (simp add: zero_dbl_def)
next
  case (Cons x xs)
  then obtain v where v: "(\<Sum>x\<leftarrow>xs. f x) = Fin v"
    by auto
  from Cons.prems obtain w where w: "f x = Fin w"
    by (cases "f x") auto
  show ?case
    by (simp add: v w)
qed

lemma offdiag_Fin:
  assumes "assembleGlobalSystem m st (zero_matrix, zero_vector) = Inr (M, rhs)" "i \<noteq> j"
    and "\<forall>g \<in> set (faces m). links st i j g \<longrightarrow> conductance st g \<noteq> NonFinite"
  shows "\<exists>v. M i j = Fin v"
proof -
  have "\<forall>g \<in> set (filter (links st i j) (faces m)). conductance st g \<noteq> NonFinite"
    using assms(3) by simp
  from sum_list_Fin [OF this] obtain w
    where "(\<Sum>g\<leftarrow>filter (links st i j) (faces m). conductance st g) = Fin w"
    by blast
  then show ?thesis
    by (simp add: assemble_offdiag [OF assms(1,2)])
qed

section \<open>The three meshes after initialization\<close>

lemmas two_squares_defs =
  two_squares_def sq_left_def sq_right_def sq_mid_def sq_left_bottom_def sq_left_side_def
  sq_left_top_def sq_right_bottom_def sq_right_side_def sq_right_top_def

lemmas corner_mesh_defs =
  corner_mesh_def corner_square_def corner_hexagon_def corner_right_def corner_top_def
  corner_square_bottom_def corner_square_side_def corner_hexagon_bottom_def
  corner_hexagon_right_def corner_hexagon_top_def corner_hexagon_left_def

lemmas hook_mesh_defs =
  hook_mesh_def hook_upper_def hook_lower_def hook_mid_def hook_shelf_def hook_floor_def
  hook_upper_under_def hook_upper_right_def hook_upper_top_def hook_upper_left_def
  hook_lower_bottom_def hook_lower_right_def hook_lower_over_def hook_lower_left_def

lemmas cell_init_defs = init_cell_def create_tags_def dx_def dy_def dxy_def

lemma two_squares_init: "\<exists>st. initProblem two_squares = Inr st"
  unfolding initProblem_def init_faces_Inr_iff
  by (simp add: two_squares_def sq_mid_def sq_left_bottom_def sq_left_side_def sq_left_top_def
      sq_right_bottom_def sq_right_side_def sq_right_top_def)

lemma two_squares_state:
  assumes "initProblem two_squares = Inr st"
  shows "tagD st 0 = (1, 1, 0)" "tagD st (Suc 0) = (1, 1, 0)"
    "tagGlobInd st 0 = 0" "tagGlobInd st (Suc 0) = 1"
    "tagBCcond st 0 = Some (Fin (- 1))"
    "tagBCtype st (Suc 0) = Some 1" "tagBCtype st 2 = Some 1" "tagBCtype st 3 = Some 1"
    "tagBCtype st 4 = Some 1" "tagBCtype st 5 = Some 1" "tagBCtype st 6 = Some 1"
    "tagBCval st 3 = Some (C (1/2) 1)" "tagBCval st (Suc 0) = Some (C (1/2) 0)"
proof -
  have d: "distinct (map fid (faces two_squares))"
    by (simp add: two_squares_defs)
  note s = initProblem_state [OF assms d]
  show "tagD st 0 = (1, 1, 0)" "tagD st (Suc 0) = (1, 1, 0)"
    "tagGlobInd st 0 = 0" "tagGlobInd st (Suc 0) = 1"
    unfolding s(1,2) by (simp_all add: two_squares_defs cell_init_defs)
  show "tagBCcond st 0 = Some (Fin (- 1))"
    using s(4)
    by (simp add: face_conductivity_def harmonic_def two_squares_defs cell_init_defs)
  show "tagBCtype st (Suc 0) = Some 1" "tagBCtype st 2 = Some 1" "tagBCtype st 3 = Some 1"
    "tagBCtype st 4 = Some 1" "tagBCtype st 5 = Some 1" "tagBCtype st 6 = Some 1"
    "tagBCval st 3 = Some (C (1/2) 1)" "tagBCval st (Suc 0) = Some (C (1/2) 0)"
    using s(3) by (simp_all add: two_squares_defs)
qed

lemma corner_init: "\<exists>st. initProblem corner_mesh = Inr st"
  unfolding initProblem_def init_faces_Inr_iff by (simp add: corner_mesh_defs)

lemma corner_state:
  assumes "initProblem corner_mesh = Inr st"
  shows "tagGlobInd st 0 = 0" "tagGlobInd st (Suc 0) = 1"
    "tagBCcond st 0 = Some (Fin (- 3 / 10))" "tagBCcond st (Suc 0) = Some (Fin (- 3 / 10))"
proof -
  have d: "distinct (map fid (faces corner_mesh))"
    by (simp add: corner_mesh_defs)
  note s = initProblem_state [OF assms d]
  show "tagGlobInd st 0 = 0" "tagGlobInd st (Suc 0) = 1"
    unfolding s(1,2) by (simp_all add: corner_mesh_defs cell_init_defs)
  show "tagBCcond st 0 = Some (Fin (- 3 / 10))" "tagBCcond st (Suc 0) = Some (Fin (- 3 / 10))"
    using s(4)
    by (simp_all add: face_conductivity_def harmonic_def corner_mesh_defs cell_init_defs)
qed

lemma hook_init: "\<exists>st. initProblem hook_mesh = Inr st"
  unfolding initProblem_def init_faces_Inr_iff by (simp add: hook_mesh_defs)

lemma hook_state:
  assumes "initProblem hook_mesh = Inr st"
  shows "tagD st 0 = (1, 1, 0)" "tagD st (Suc 0) = (1, 1, 0)"
    "tagGlobInd st 0 = 0" "tagGlobInd st (Suc 0) = 1"
    "tagBCcond st 0 = Some NonFinite" "tagBCcond st (Suc 0) = Some (Fin (15/8))"
    "tagBCcond st 2 = Some (Fin (15/8))"
    "tagBCtype st 3 = Some 1" "tagBCtype st 4 = Some 1" "tagBCtype st 5 = Some 1" "tagBCtype st 6 = Some 1"
    "tagBCtype st 7 = Some 1" "tagBCtype st 8 = Some 1" "tagBCtype st 9 = Some 1" "tagBCtype st 10 = Some 1"
proof -
  have d: "distinct (map fid (faces hook_mesh))"
    by (simp add: hook_mesh_defs)
  note s = initProblem_state [OF assms d]
  show 1: "tagD st 0 = (1, 1, 0)" "tagD st (Suc 0) = (1, 1, 0)"
    "tagGlobInd st 0 = 0" "tagGlobInd st (Suc 0) = 1"
    unfolding s(1,2) by (simp_all add: hook_mesh_defs init_cell_def create_tags_def dx_def dy_def dxy_def)
  show "tagBCcond st 0 = Some NonFinite" "tagBCcond st (Suc 0) = Some (Fin (15/8))"
    "tagBCcond st 2 = Some (Fin (15/8))"
    using s(4)
    by (simp_all add: face_conductivity_def harmonic_def hook_mesh_defs init_cell_def
        create_tags_def dx_def dy_def dxy_def)
  show "tagBCtype st 3 = Some 1" "tagBCtype st 4 = Some 1" "tagBCtype st 5 = Some 1" "tagBCtype st 6 = Some 1"
    "tagBCtype st 7 = Some 1" "tagBCtype st 8 = Some 1" "tagBCtype st 9 = Some 1" "tagBCtype st 10 = Some 1"
    using s(3) by (simp_all add: hook_mesh_defs)
qed

section \<open>The claims\<close>

subsection \<open>C1: exchanging the two one-sided transmissibilities\<close>




subsection \<open>C3: the stencil of an internal face\<close>

text \<open>
  Claim C3, as amended. Let \<open>f\<close> be an internal face of the mesh whose two cells have
  different global indices \<open>idA\<close> and \<open>idB\<close>, and let the conductance \<open>t\<cdot>A\<close> of every
  internal face that links these two rows be finite. When the face loop of the assembly
  reaches \<open>f\<close>, it adds \<open>t\<cdot>A\<close> to the entries \<open>(idA,idA)\<close> and \<open>(idB,idB)\<close>, subtracts it
  from \<open>(idA,idB)\<close> and \<open>(idB,idA)\<close>, changes no other entry and leaves the right-hand
  side alone. After the assembly of the zero matrix the entries \<open>(idA,idB)\<close> and
  \<open>(idB,idA)\<close> are equal, and both are the negative of the sum, taken in the order of
  the face loop, of the conductances of all the internal faces that link the two rows
  (under the hypothesis the sum is a number of the form \<open>Fin v\<close>: \<open>offdiag_Fin\<close>). This is the negative of the conductance of \<open>f\<close> itself when no other face links
  them.
\<close>

theorem internal_face_stencil:
  assumes "assembleGlobalSystem m st (zero_matrix, zero_vector) = Inr (M, rhs)"
    and "faces m = fs1 @ f # fs2" "\<not> Boundary f" "FrontCell f = Some cB"
    and "idA = tagGlobInd st (cid (BackCell f))" "idB = tagGlobInd st (cid cB)" "idA \<noteq> idB"
    and "\<forall>g \<in> set (faces m). links st idA idB g \<longrightarrow> conductance st g \<noteq> NonFinite"
  shows "(\<exists>M1 r1 M2.
            assemble_faces st fs1 (zero_matrix, zero_vector) = Inr (M1, r1)
            \<and> assemble_face st f (M1, r1) = Inr (M2, r1)
            \<and> assembleGlobalSystem m st (zero_matrix, zero_vector) =
                 (case assemble_faces st fs2 (M2, r1) of
                    Inl e \<Rightarrow> Inl e
                  | Inr (M', rhs') \<Rightarrow> Inr (M', assemble_sources st (cells m) rhs'))
            \<and> M2 idA idA = M1 idA idA + conductance st f
            \<and> M2 idB idB = M1 idB idB + conductance st f
            \<and> M2 idA idB = M1 idA idB - conductance st f
            \<and> M2 idB idA = M1 idB idA - conductance st f
            \<and> (\<forall>i j. (i \<noteq> idA \<and> i \<noteq> idB) \<or> (j \<noteq> idA \<and> j \<noteq> idB) \<longrightarrow> M2 i j = M1 i j))
         \<and> M idA idB = M idB idA
         \<and> M idA idB =
             - foldl (\<lambda>s g. s + conductance st g) 0 (filter (links st idA idB) (faces m))
         \<and> (filter (links st idA idB) (faces m) = [f] \<longrightarrow> M idA idB = - conductance st f)"
proof -
  have off: "M idA idB = - (\<Sum>g\<leftarrow>filter (links st idA idB) (faces m). conductance st g)"
    by (rule assemble_offdiag [OF assms(1,7)])
  then have ordered: "M idA idB =
      - foldl (\<lambda>s g. s + conductance st g) 0 (filter (links st idA idB) (faces m))"
    by (simp add: foldl_plus_sum_list)
  have sym: "M idA idB = M idB idA"
    by (rule assemble_symmetric [OF assms(1)])
  have single: "M idA idB = - conductance st f"
    if "filter (links st idA idB) (faces m) = [f]"
    using that by (simp add: off)
  from assms(1) obtain r where all: "assemble_faces st (faces m) (zero_matrix, zero_vector) = Inr (M, r)"
    by (auto simp: assembleGlobalSystem_def split: sum.splits)
  then obtain M1 r1 where 1: "assemble_faces st fs1 (zero_matrix, zero_vector) = Inr (M1, r1)"
    unfolding assms(2) assemble_faces_append by (auto split: sum.splits)
  from internal_face_step [OF assms(3-7), of M1 r1]
  obtain M2 where 2: "assemble_face st f (M1, r1) = Inr (M2, r1)"
    and e: "M2 idA idA = M1 idA idA + conductance st f"
      "M2 idB idB = M1 idB idB + conductance st f"
      "M2 idA idB = M1 idA idB - conductance st f"
      "M2 idB idA = M1 idB idA - conductance st f"
      "\<forall>i j. (i \<noteq> idA \<and> i \<noteq> idB) \<or> (j \<noteq> idA \<and> j \<noteq> idB) \<longrightarrow> M2 i j = M1 i j"
    by blast
  have "assemble_faces st (faces m) (zero_matrix, zero_vector) = assemble_faces st fs2 (M2, r1)"
    by (simp add: assms(2) assemble_faces_append 1 2)
  then have 3: "assembleGlobalSystem m st (zero_matrix, zero_vector) =
                 (case assemble_faces st fs2 (M2, r1) of
                    Inl e \<Rightarrow> Inl e
                  | Inr (M', rhs') \<Rightarrow> Inr (M', assemble_sources st (cells m) rhs'))"
    by (simp add: assembleGlobalSystem_def)
  show ?thesis
    using 1 2 3 e sym ordered single by blast
qed

text \<open>
  On the two squares the internal face comes first in the face loop and is the only face
  that links the rows \<open>0\<close> and \<open>1\<close>; its conductance is \<open>-1\<close>, and both entries off the
  diagonal are \<open>1\<close>.
\<close>

theorem internal_face_stencil_witness:
  "\<exists>st M rhs. initProblem two_squares = Inr st
     \<and> assembleGlobalSystem two_squares st (zero_matrix, zero_vector) = Inr (M, rhs)
     \<and> faces two_squares =
         [] @ sq_mid #
           [sq_left_bottom, sq_left_side, sq_left_top, sq_right_bottom, sq_right_side, sq_right_top]
     \<and> \<not> Boundary sq_mid \<and> FrontCell sq_mid = Some sq_right
     \<and> tagGlobInd st (cid (BackCell sq_mid)) = 0 \<and> tagGlobInd st (cid sq_right) = 1
     \<and> filter (links st 0 1) (faces two_squares) = [sq_mid]
     \<and> conductance st sq_mid = Fin (- 1)
     \<and> M 0 1 = Fin 1 \<and> M 1 0 = Fin 1"
proof -
  obtain st where st: "initProblem two_squares = Inr st"
    using two_squares_init by blast
  obtain M rhs where sys: "assembleGlobalSystem two_squares st (zero_matrix, zero_vector) = Inr (M, rhs)"
    using assemble_after_init [OF st] by blast
  note s = two_squares_state [OF st]
  have fs: "faces two_squares =
         [] @ sq_mid #
           [sq_left_bottom, sq_left_side, sq_left_top, sq_right_bottom, sq_right_side, sq_right_top]"
    by (simp add: two_squares_def)
  have nb: "\<not> Boundary sq_mid" and fc: "FrontCell sq_mid = Some sq_right"
    by (simp_all add: sq_mid_def)
  have idA: "0 = tagGlobInd st (cid (BackCell sq_mid))" and idB: "1 = tagGlobInd st (cid sq_right)"
    by (simp_all add: sq_mid_def sq_left_def sq_right_def s)
  have ne: "(0::int) \<noteq> 1"
    by simp
  have only: "filter (links st 0 1) (faces two_squares) = [sq_mid]"
    by (simp add: links_def two_squares_defs s)
  have c: "conductance st sq_mid = Fin (- 1)"
    by (simp add: conductance_def Real_def sq_mid_def s)
  have "\<forall>g \<in> set (filter (links st 0 1) (faces two_squares)). conductance st g \<noteq> NonFinite"
    unfolding only by (simp add: c)
  then have fin: "\<forall>g \<in> set (faces two_squares). links st 0 1 g \<longrightarrow> conductance st g \<noteq> NonFinite"
    by simp
  note inst = internal_face_stencil [OF sys fs nb fc idA idB ne fin]
  have both: "M 0 1 = M 1 0 \<and> M 0 1 = - conductance st sq_mid"
    using inst only by blast
  have 01: "M 0 1 = Fin 1"
    by (simp add: both [THEN conjunct2] c)
  have 10: "M 1 0 = Fin 1"
    by (simp only: both [THEN conjunct1, symmetric] 01)
  show ?thesis
    using st sys fs nb fc idA [symmetric] idB [symmetric] only c 01 10 by blast
qed

text \<open>
  Claim C3 as stated fails twice. On the mesh of the unit square and the hexagon around
  its corner the two cells share two internal faces of conductance \<open>-3/10\<close> each, and the
  entries \<open>(0,1)\<close> and \<open>(1,0)\<close> are \<open>3/5\<close>, not the negative \<open>3/10\<close> of the conductance of
  one face. On the mesh of the two hooks the conductivity of the face \<open>hook_mid\<close> is
  \<open>0\<cdot>0/(0 - 0)\<close>, and the entries \<open>(0,1)\<close> and \<open>(1,0)\<close> are not finite: they are NaN, of
  which \<open>==\<close> does not hold.
\<close>

theorem internal_face_stencil_counterexample:
  "(\<exists>st M rhs. initProblem corner_mesh = Inr st
      \<and> assembleGlobalSystem corner_mesh st (zero_matrix, zero_vector) = Inr (M, rhs)
      \<and> \<not> Boundary corner_right \<and> FrontCell corner_right = Some corner_hexagon
      \<and> tagGlobInd st (cid (BackCell corner_right)) = 0
      \<and> tagGlobInd st (cid corner_hexagon) = 1
      \<and> M 0 1 = Fin (3 / 5) \<and> M 1 0 = Fin (3 / 5)
      \<and> - (Real (tagBCcond st) (fid corner_right) * Fin (Area corner_right)) = Fin (3 / 10))
   \<and> (\<exists>st M rhs. initProblem hook_mesh = Inr st
      \<and> assembleGlobalSystem hook_mesh st (zero_matrix, zero_vector) = Inr (M, rhs)
      \<and> \<not> Boundary hook_mid \<and> FrontCell hook_mid = Some hook_lower
      \<and> tagGlobInd st (cid (BackCell hook_mid)) = 0
      \<and> tagGlobInd st (cid hook_lower) = 1
      \<and> Real (tagBCcond st) (fid hook_mid) = NonFinite
      \<and> M 0 1 = NonFinite \<and> M 1 0 = NonFinite)"
proof
  obtain st where st: "initProblem corner_mesh = Inr st"
    using corner_init by blast
  obtain M rhs where sys: "assembleGlobalSystem corner_mesh st (zero_matrix, zero_vector) = Inr (M, rhs)"
    using assemble_after_init [OF st] by blast
  note s = corner_state [OF st]
  have "M 0 1 = Fin (3 / 5)"
    using assemble_offdiag [OF sys, of 0 1]
    by (simp add: links_def conductance_def Real_def corner_mesh_defs s)
  moreover have "M 1 0 = Fin (3 / 5)"
    using assemble_offdiag [OF sys, of 1 0]
    by (simp add: links_def conductance_def Real_def corner_mesh_defs s)
  moreover have "- (Real (tagBCcond st) (fid corner_right) * Fin (Area corner_right)) = Fin (3 / 10)"
    by (simp add: Real_def corner_right_def s)
  moreover have "\<not> Boundary corner_right \<and> FrontCell corner_right = Some corner_hexagon
     \<and> tagGlobInd st (cid (BackCell corner_right)) = 0
     \<and> tagGlobInd st (cid corner_hexagon) = 1"
    by (simp add: corner_right_def corner_square_def corner_hexagon_def s)
  ultimately show "\<exists>st M rhs. initProblem corner_mesh = Inr st
      \<and> assembleGlobalSystem corner_mesh st (zero_matrix, zero_vector) = Inr (M, rhs)
      \<and> \<not> Boundary corner_right \<and> FrontCell corner_right = Some corner_hexagon
      \<and> tagGlobInd st (cid (BackCell corner_right)) = 0
      \<and> tagGlobInd st (cid corner_hexagon) = 1
      \<and> M 0 1 = Fin (3 / 5) \<and> M 1 0 = Fin (3 / 5)
      \<and> - (Real (tagBCcond st) (fid corner_right) * Fin (Area corner_right)) = Fin (3 / 10)"
    using st sys by blast
next
  obtain st where st: "initProblem hook_mesh = Inr st"
    using hook_init by blast
  obtain M rhs where sys: "assembleGlobalSystem hook_mesh st (zero_matrix, zero_vector) = Inr (M, rhs)"
    using assemble_after_init [OF st] by blast
  note s = hook_state [OF st]
  have "M 0 1 = NonFinite"
    using assemble_offdiag [OF sys, of 0 1]
    by (simp add: links_def conductance_def Real_def hook_mesh_defs s)
  moreover have "M 1 0 = NonFinite"
    using assemble_offdiag [OF sys, of 1 0]
    by (simp add: links_def conductance_def Real_def hook_mesh_defs s)
  moreover have "Real (tagBCcond st) (fid hook_mid) = NonFinite"
    by (simp add: Real_def hook_mid_def s)
  moreover have "\<not> Boundary hook_mid \<and> FrontCell hook_mid = Some hook_lower
     \<and> tagGlobInd st (cid (BackCell hook_mid)) = 0
     \<and> tagGlobInd st (cid hook_lower) = 1"
    by (simp add: hook_mid_def hook_upper_def hook_lower_def s)
  ultimately show "\<exists>st M rhs. initProblem hook_mesh = Inr st
      \<and> assembleGlobalSystem hook_mesh st (zero_matrix, zero_vector) = Inr (M, rhs)
      \<and> \<not> Boundary hook_mid \<and> FrontCell hook_mid = Some hook_lower
      \<and> tagGlobInd st (cid (BackCell hook_mid)) = 0
      \<and> tagGlobInd st (cid hook_lower) = 1
      \<and> Real (tagBCcond st) (fid hook_mid) = NonFinite
      \<and> M 0 1 = NonFinite \<and> M 1 0 = NonFinite"
    using st sys by blast
qed

subsection \<open>C4: Dirichlet boundary faces in the assembly\<close>

text \<open>
  Claim C4. Let \<open>f\<close> be a boundary face of the mesh whose type tag is Dirichlet, \<open>t\<close> the
  one-sided transmissibility computed from the tensor of its cell, its unit normal and
  the displacement from the cell barycenter to the face barycenter, and \<open>gid\<close> the global
  index of its cell. When the face loop of \<open>assembleGlobalSystem\<close> has brought the system
  to \<open>(M1, r1)\<close> on the faces before \<open>f\<close>, the assembly goes on from the system in which
  \<open>t\<cdot>A\<close> is subtracted from the diagonal entry \<open>(gid,gid)\<close> of \<open>M1\<close> and
  \<open>t\<cdot>(boundary value)\<cdot>A\<close> from \<open>r1\<close> at \<open>gid\<close>, and nothing else is changed: its result
  is the result of the remaining faces and of the source loop on that system.
\<close>

theorem dirichlet_face_assembly:
  assumes "faces m = fs1 @ f # fs2"
    and "Boundary f" "Integer (tagBCtype st) (fid f) = bc_code BC_DIR"
    and "t = calc_tf (tensor (tagD st (cid (BackCell f)))) (UnitNormal f)
               (displacement (fBarycenter f) (cBarycenter (BackCell f)))"
    and "gid = tagGlobInd st (cid (BackCell f))"
    and "assemble_faces st fs1 sys = Inr (M1, r1)"
  shows "\<exists>M2 r2.
           assembleGlobalSystem m st sys =
             (case assemble_faces st fs2 (M2, r2) of
                Inl e \<Rightarrow> Inl e
              | Inr (M, rhs) \<Rightarrow> Inr (M, assemble_sources st (cells m) rhs))
           \<and> assemble_face st f (M1, r1) = Inr (M2, r2)
           \<and> M2 gid gid = M1 gid gid - t * Fin (Area f)
           \<and> (\<forall>i j. (i, j) \<noteq> (gid, gid) \<longrightarrow> M2 i j = M1 i j)
           \<and> r2 gid = r1 gid - t * Fin (Real (tagBCval st) (fid f)) * Fin (Area f)
           \<and> (\<forall>i. i \<noteq> gid \<longrightarrow> r2 i = r1 i)"
proof -
  let ?M2 = "sub_entry M1 gid gid (t * Fin (Area f))"
  let ?r2 = "r1(gid := r1 gid - t * Fin (Real (tagBCval st) (fid f)) * Fin (Area f))"
  have step: "assemble_face st f (M1, r1) = Inr (?M2, ?r2)"
    unfolding assms(4,5) by (rule assemble_face_dirichlet [OF assms(2,3)])
  have "assemble_faces st (faces m) sys = assemble_faces st fs2 (?M2, ?r2)"
    by (simp add: assms(1,6) assemble_faces_append step)
  then have "assembleGlobalSystem m st sys =
             (case assemble_faces st fs2 (?M2, ?r2) of
                Inl e \<Rightarrow> Inl e
              | Inr (M, rhs) \<Rightarrow> Inr (M, assemble_sources st (cells m) rhs))"
    by (simp add: assembleGlobalSystem_def)
  moreover have "?M2 gid gid = M1 gid gid - t * Fin (Area f)"
    and "\<forall>i j. (i, j) \<noteq> (gid, gid) \<longrightarrow> ?M2 i j = M1 i j"
    by (auto simp: sub_entry_def)
  moreover have "?r2 gid = r1 gid - t * Fin (Real (tagBCval st) (fid f)) * Fin (Area f)"
    and "\<forall>i. i \<noteq> gid \<longrightarrow> ?r2 i = r1 i"
    by simp_all
  ultimately show ?thesis
    using step by blast
qed

text \<open>
  On the two squares, the bottom face of the left square comes second in the face loop,
  after the internal face, which leaves \<open>-1\<close> on the diagonal of row \<open>0\<close>; here \<open>t = 2\<close>
  and \<open>A = 1\<close>, and the assembly goes on with \<open>-3\<close> on that diagonal.
\<close>

theorem dirichlet_face_assembly_witness:
  "\<exists>st M1 r1 M2 r2. initProblem two_squares = Inr st
     \<and> faces two_squares =
         [sq_mid] @ sq_left_bottom #
           [sq_left_side, sq_left_top, sq_right_bottom, sq_right_side, sq_right_top]
     \<and> Boundary sq_left_bottom
     \<and> Integer (tagBCtype st) (fid sq_left_bottom) = bc_code BC_DIR
     \<and> calc_tf (tensor (tagD st (cid (BackCell sq_left_bottom)))) (UnitNormal sq_left_bottom)
          (displacement (fBarycenter sq_left_bottom) (cBarycenter (BackCell sq_left_bottom))) = Fin 2
     \<and> tagGlobInd st (cid (BackCell sq_left_bottom)) = 0
     \<and> assemble_faces st [sq_mid] (zero_matrix, zero_vector) = Inr (M1, r1)
     \<and> M1 0 0 = Fin (- 1) \<and> r1 0 = Fin 0
     \<and> assembleGlobalSystem two_squares st (zero_matrix, zero_vector) =
          (case assemble_faces st
                  [sq_left_side, sq_left_top, sq_right_bottom, sq_right_side, sq_right_top]
                  (M2, r2) of
             Inl e \<Rightarrow> Inl e
           | Inr (M, rhs) \<Rightarrow> Inr (M, assemble_sources st (cells two_squares) rhs))
     \<and> M2 0 0 = Fin (- 3) \<and> r2 0 = Fin (- (2 * C (1/2) 0))"
proof -
  obtain st where st: "initProblem two_squares = Inr st"
    using two_squares_init by blast
  note s = two_squares_state [OF st]
  let ?fs2 = "[sq_left_side, sq_left_top, sq_right_bottom, sq_right_side, sq_right_top]"
  have fs: "faces two_squares = [sq_mid] @ sq_left_bottom # ?fs2"
    by (simp add: two_squares_def)
  have b: "Boundary sq_left_bottom"
    by (simp add: sq_left_bottom_def)
  have ty: "Integer (tagBCtype st) (fid sq_left_bottom) = bc_code BC_DIR"
    by (simp add: Integer_def sq_left_bottom_def s)
  have t: "Fin 2 = calc_tf (tensor (tagD st (cid (BackCell sq_left_bottom))))
          (UnitNormal sq_left_bottom)
          (displacement (fBarycenter sq_left_bottom) (cBarycenter (BackCell sq_left_bottom)))"
    by (simp add: sq_left_bottom_def sq_left_def s)
  have gid: "0 = tagGlobInd st (cid (BackCell sq_left_bottom))"
    by (simp add: sq_left_bottom_def sq_left_def s)
  obtain M1 r1 where 1: "assemble_faces st [sq_mid] (zero_matrix, zero_vector) = Inr (M1, r1)"
    and M1: "M1 0 0 = Fin (- 1)" and r1: "r1 0 = Fin 0"
    by (simp add: assemble_face_def Let_def add_entry_def sub_entry_def Real_def
        zero_matrix_def zero_vector_def zero_dbl_def sq_mid_def sq_left_def sq_right_def s)
  from dirichlet_face_assembly [OF fs b ty t gid 1]
  obtain M2 r2 where 2: "assembleGlobalSystem two_squares st (zero_matrix, zero_vector) =
          (case assemble_faces st ?fs2 (M2, r2) of
             Inl e \<Rightarrow> Inl e
           | Inr (M, rhs) \<Rightarrow> Inr (M, assemble_sources st (cells two_squares) rhs))"
    and M2: "M2 0 0 = M1 0 0 - Fin 2 * Fin (Area sq_left_bottom)"
    and r2: "r2 0 = r1 0 - Fin 2 * Fin (Real (tagBCval st) (fid sq_left_bottom))
                     * Fin (Area sq_left_bottom)"
    by blast
  have "M2 0 0 = Fin (- 3)"
    by (simp add: M2 M1 sq_left_bottom_def)
  moreover have "r2 0 = Fin (- (2 * C (1/2) 0))"
    by (simp add: r2 r1 Real_def sq_left_bottom_def s)
  ultimately show ?thesis
    using st fs b ty t [symmetric] gid [symmetric] 1 M1 r1 2 by blast
qed

subsection \<open>C6: global indices\<close>

text \<open>
  Claim C6. On a mesh of \<open>N\<close> cells (with different handles), the global indices that
  the cell loop assigns are, in iteration order, \<open>0, 1, ..., N - 1\<close>. The face loop keeps
  them, so in the tags that \<open>initProblem\<close> returns the indices of the cells are exactly
  the set \<open>{0, ..., N - 1}\<close>, and different cells have different indices.
\<close>

theorem global_indices:
  assumes "distinct (map cid (cells m))"
  shows "map (\<lambda>c. tagGlobInd (init_cells (cells m) 0 create_tags) (cid c)) (cells m)
           = map int [0..<length (cells m)]
         \<and> (\<forall>st. initProblem m = Inr st \<longrightarrow>
               map (\<lambda>c. tagGlobInd st (cid c)) (cells m) = map int [0..<length (cells m)]
               \<and> tagGlobInd st ` cid ` set (cells m) = {0..<int (length (cells m))}
               \<and> inj_on (tagGlobInd st) (cid ` set (cells m)))"
proof (intro conjI allI impI)
  show "map (\<lambda>c. tagGlobInd (init_cells (cells m) 0 create_tags) (cid c)) (cells m)
           = map int [0..<length (cells m)]"
    using init_cells_globind [OF assms, of 0 create_tags] by simp
next
  fix st
  assume st: "initProblem m = Inr st"
  have l: "map (tagGlobInd st) (map cid (cells m)) = map int [0..<length (cells m)]"
    by (rule init_globind_list [OF assms st])
  then show "map (\<lambda>c. tagGlobInd st (cid c)) (cells m) = map int [0..<length (cells m)]"
    by (simp add: comp_def)
  have "set (map (tagGlobInd st) (map cid (cells m))) = set (map int [0..<length (cells m)])"
    by (simp only: l)
  then show "tagGlobInd st ` cid ` set (cells m) = {0..<int (length (cells m))}"
    by (simp add: image_int_atLeastLessThan image_image)
  show "inj_on (tagGlobInd st) (cid ` set (cells m))"
    by (rule init_globind_inj [OF assms st])
qed

theorem global_indices_witness:
  "distinct (map cid (cells two_squares))
   \<and> map (\<lambda>c. tagGlobInd (init_cells (cells two_squares) 0 create_tags) (cid c)) (cells two_squares)
       = [0, 1]
   \<and> (\<exists>st. initProblem two_squares = Inr st
         \<and> map (\<lambda>c. tagGlobInd st (cid c)) (cells two_squares) = [0, 1]
         \<and> tagGlobInd st ` cid ` set (cells two_squares) = {0..<2})"
proof -
  have d: "distinct (map cid (cells two_squares))"
    by (simp add: two_squares_defs)
  obtain st where st: "initProblem two_squares = Inr st"
    using two_squares_init by blast
  have n: "map int [0..<length (cells two_squares)] = [0, 1]"
    "int (length (cells two_squares)) = 2"
    by (simp_all add: two_squares_def upt_conv_Cons)
  note g = global_indices [OF d]
  note g1 = g [THEN conjunct1]
  note g2 = g [THEN conjunct2, rule_format, OF st]
  show ?thesis
  proof (intro conjI exI [of _ st])
    show "distinct (map cid (cells two_squares))"
      by (rule d)
    show "map (\<lambda>c. tagGlobInd (init_cells (cells two_squares) 0 create_tags) (cid c))
            (cells two_squares) = [0, 1]"
      using g1 by (simp only: n)
    show "initProblem two_squares = Inr st"
      by (rule st)
    show "map (\<lambda>c. tagGlobInd st (cid c)) (cells two_squares) = [0, 1]"
      using g2 [THEN conjunct1] by (simp only: n)
    show "tagGlobInd st ` cid ` set (cells two_squares) = {0..<2}"
      using g2 [THEN conjunct2, THEN conjunct1] by (simp only: n)
  qed
qed

subsection \<open>C7: an internal face without a front cell\<close>

text \<open>
  Claim C7. If some internal face of the mesh has no valid front cell, \<open>initProblem\<close>
  exits with the message and the status 1: \<open>run\<close> is not entered (the line \<open>N = ...\<close>
  that it prints before it allocates the matrix is not in the output), no system is
  handed to the solver, nothing is saved, and the meshes that follow are not read.
\<close>

theorem torn_mesh_exits:
  assumes "f \<in> set (faces m)" "\<not> Boundary f" "FrontCell f = None"
  shows "initProblem m = Inl InvalidFrontCell
         \<and> process_mesh S m =
             \<lparr>m_out = [PrintInvalidFrontCell], m_exit = Some InvalidFrontCell,
              m_systems = [], m_saved = None\<rparr>
         \<and> main S (m # ms) = ([PrintInvalidFrontCell], 1)"
proof -
  have "initProblem m = Inl InvalidFrontCell"
    unfolding initProblem_def init_faces_Inl using assms by blast
  then show ?thesis
    by (simp add: process_mesh_def main_def exit_status_def)
qed

theorem torn_mesh_exits_witness:
  "torn_face \<in> set (faces torn_mesh) \<and> \<not> Boundary torn_face \<and> FrontCell torn_face = None
   \<and> initProblem torn_mesh = Inl InvalidFrontCell
   \<and> m_out (process_mesh zero_solver torn_mesh) = [PrintInvalidFrontCell]
   \<and> m_systems (process_mesh zero_solver torn_mesh) = []
   \<and> main zero_solver [torn_mesh, two_squares] = ([PrintInvalidFrontCell], 1)"
  using torn_mesh_exits [of torn_face torn_mesh zero_solver "[two_squares]"]
  by (simp add: torn_mesh_def torn_face_def sq_mid_def)

subsection \<open>C8: the outcome of the solver\<close>

text \<open>
  Claim C8. On a mesh that passed the initializer the assembly succeeds, and \<open>run\<close>
  prints the iteration count and the residual of the solver right after the line
  \<open>N = ...\<close>, whatever the solver reports. If the solver reports a failure, \<open>run\<close> prints
  the reason and exits with status 1: nothing else is printed (no error norm), the tags
  are the ones it was given (the solution is not written onto the cells), and the mesh
  is not saved.
\<close>

theorem solver_failure_is_fatal:
  assumes "initProblem m = Inr st"
  shows "\<exists>A rhs. assembleGlobalSystem m st (zero_matrix, zero_vector) = Inr (A, rhs)
           \<and> take 3 (r_out (run S m st)) =
               [PrintN (length (cells m)), PrintIterations (Iterations (S A rhs)),
                PrintResidual (Residual (S A rhs))]
           \<and> (\<not> solved (S A rhs) \<longrightarrow>
                 run S m st =
                   \<lparr>r_out = [PrintN (length (cells m)), PrintIterations (Iterations (S A rhs)),
                             PrintResidual (Residual (S A rhs)),
                             PrintSolverFailed (GetReason (S A rhs))],
                    r_exit = Some (SolverFailed (GetReason (S A rhs))), r_tags = st,
                    r_systems = [(A, rhs)], r_saved = False\<rparr>
                 \<and> exit_status (SolverFailed (GetReason (S A rhs))) = 1
                 \<and> m_saved (process_mesh S m) = None
                 \<and> main S (m # ms) =
                     ([PrintN (length (cells m)), PrintIterations (Iterations (S A rhs)),
                       PrintResidual (Residual (S A rhs)),
                       PrintSolverFailed (GetReason (S A rhs))], 1))"
proof -
  obtain A rhs where sys: "assembleGlobalSystem m st (zero_matrix, zero_vector) = Inr (A, rhs)"
    using assemble_after_init [OF assms] by blast
  have "take 3 (r_out (run S m st)) =
               [PrintN (length (cells m)), PrintIterations (Iterations (S A rhs)),
                PrintResidual (Residual (S A rhs))]"
    by (simp add: run_def sys Let_def split: prod.splits)
  moreover have "run S m st =
                   \<lparr>r_out = [PrintN (length (cells m)), PrintIterations (Iterations (S A rhs)),
                             PrintResidual (Residual (S A rhs)),
                             PrintSolverFailed (GetReason (S A rhs))],
                    r_exit = Some (SolverFailed (GetReason (S A rhs))), r_tags = st,
                    r_systems = [(A, rhs)], r_saved = False\<rparr>" if "\<not> solved (S A rhs)"
    using that by (simp add: run_def sys Let_def)
  ultimately show ?thesis
    using sys assms by (auto simp: exit_status_def process_mesh_def main_def Let_def)
qed

theorem solver_failure_is_fatal_witness:
  "\<exists>st. initProblem two_squares = Inr st
     \<and> r_out (run stalled_solver two_squares st) =
         [PrintN 2, PrintIterations 1000, PrintResidual 1,
          PrintSolverFailed ''maximum iterations reached'']
     \<and> r_exit (run stalled_solver two_squares st) = Some (SolverFailed ''maximum iterations reached'')
     \<and> tagConc (r_tags (run stalled_solver two_squares st)) = tagConc st
     \<and> main stalled_solver [two_squares, two_squares] =
         ([PrintN 2, PrintIterations 1000, PrintResidual 1,
           PrintSolverFailed ''maximum iterations reached''], 1)"
proof -
  obtain st where st: "initProblem two_squares = Inr st"
    using two_squares_init by blast
  have n: "length (cells two_squares) = 2"
    by (simp add: two_squares_def)
  show ?thesis
    using solver_failure_is_fatal [OF st, of stalled_solver "[two_squares]"] st
    by (auto simp: stalled_solver_def n)
qed

subsection \<open>C9: boundary faces are Dirichlet faces\<close>

text \<open>
  Claim C9. After \<open>initProblem\<close>, on a mesh whose faces have different handles, every
  boundary face has the type Dirichlet and, as its boundary value, the analytical
  solution \<open>C\<close> at the barycenter of the face; the type Neumann is stored on no face.
\<close>

theorem boundary_faces_dirichlet:
  assumes "initProblem m = Inr st" "distinct (map fid (faces m))" "f \<in> set (faces m)" "Boundary f"
  shows "tagBCtype st (fid f) = Some (bc_code BC_DIR)
         \<and> tagBCval st (fid f) = Some (C (fst (fBarycenter f)) (snd (fBarycenter f)))
         \<and> (\<forall>h. tagBCtype st h \<noteq> Some (bc_code BC_NEUM))"
proof -
  have "tagBCtype st h \<noteq> Some (bc_code BC_NEUM)" for h
    using init_faces_types [OF assms(1) [unfolded initProblem_def], of h]
    by (auto simp: create_tags_def)
  then show ?thesis
    using init_faces_boundary [OF assms(1) [unfolded initProblem_def] assms(2-4)] by simp
qed

theorem boundary_faces_dirichlet_witness:
  "\<exists>st. initProblem two_squares = Inr st
     \<and> distinct (map fid (faces two_squares))
     \<and> sq_left_top \<in> set (faces two_squares) \<and> Boundary sq_left_top
     \<and> tagBCtype st (fid sq_left_top) = Some 1
     \<and> tagBCval st (fid sq_left_top) = Some (C (1/2) 1)
     \<and> tagBCtype st (fid sq_mid) \<noteq> Some 2"
proof -
  obtain st where st: "initProblem two_squares = Inr st"
    using two_squares_init by blast
  have d: "distinct (map fid (faces two_squares))"
    by (simp add: two_squares_defs)
  have mem: "sq_left_top \<in> set (faces two_squares)"
    by (simp add: two_squares_def)
  have b: "Boundary sq_left_top"
    by (simp add: sq_left_top_def)
  have "fBarycenter sq_left_top = (1/2, 1)"
    by (simp add: sq_left_top_def)
  then show ?thesis
    using boundary_faces_dirichlet [OF st d mem b] st d mem b by auto
qed

subsection \<open>C10: the division in the interface conductivity\<close>

text \<open>
  Claim C10. For an internal face with a valid front cell and finite one-sided
  transmissibilities \<open>tfA\<close> and \<open>tfB\<close>, the initializer never reports an error: it stores
  \<open>tfA\<cdot>tfB/(tfA - tfB)\<close>, which is a finite number exactly when \<open>tfA\<close> and \<open>tfB\<close> differ.
  When they are equal the division is by zero, nothing checks for it, and the value
  stored is not finite.
\<close>

theorem conductivity_division_unguarded:
  assumes "\<not> Boundary f" "FrontCell f = Some cB"
    and "calc_tf (tensor (tagD st (cid (BackCell f)))) (UnitNormal f)
           (displacement (fBarycenter f) (cBarycenter (BackCell f))) = Fin tfA"
    and "calc_tf (tensor (tagD st (cid cB))) (UnitNormal f)
           (displacement (fBarycenter f) (cBarycenter cB)) = Fin tfB"
  shows "\<exists>st'. init_face f st = Inr st'
           \<and> tagBCcond st' (fid f) =
               Some (if tfA = tfB then NonFinite else Fin (tfA * tfB / (tfA - tfB)))"
  using assms by (simp add: init_face_def face_conductivity_def harmonic_def Let_def)

theorem conductivity_division_unguarded_witness:
  "\<exists>st. initProblem hook_mesh = Inr st
     \<and> \<not> Boundary hook_mid \<and> FrontCell hook_mid = Some hook_lower
     \<and> calc_tf (tensor (tagD st (cid (BackCell hook_mid)))) (UnitNormal hook_mid)
          (displacement (fBarycenter hook_mid) (cBarycenter (BackCell hook_mid))) = Fin 0
     \<and> calc_tf (tensor (tagD st (cid hook_lower))) (UnitNormal hook_mid)
          (displacement (fBarycenter hook_mid) (cBarycenter hook_lower)) = Fin 0
     \<and> (\<exists>st'. init_face hook_mid st = Inr st' \<and> tagBCcond st' (fid hook_mid) = Some NonFinite)
     \<and> tagBCcond st (fid hook_mid) = Some NonFinite"
proof -
  obtain st where st: "initProblem hook_mesh = Inr st"
    using hook_init by blast
  note s = hook_state [OF st]
  have 1: "\<not> Boundary hook_mid" and 2: "FrontCell hook_mid = Some hook_lower"
    by (simp_all add: hook_mid_def)
  have 3: "calc_tf (tensor (tagD st (cid (BackCell hook_mid)))) (UnitNormal hook_mid)
        (displacement (fBarycenter hook_mid) (cBarycenter (BackCell hook_mid))) = Fin 0"
    by (simp add: hook_mid_def hook_upper_def s)
  have 4: "calc_tf (tensor (tagD st (cid hook_lower))) (UnitNormal hook_mid)
        (displacement (fBarycenter hook_mid) (cBarycenter hook_lower)) = Fin 0"
    by (simp add: hook_mid_def hook_lower_def s)
  have 5: "tagBCcond st (fid hook_mid) = Some NonFinite"
    by (simp add: hook_mid_def s)
  from conductivity_division_unguarded [OF 1 2 3 4]
  have "\<exists>st'. init_face hook_mid st = Inr st' \<and> tagBCcond st' (fid hook_mid) = Some NonFinite"
    by simp
  then show ?thesis
    using st 1 2 3 4 5 by blast
qed

end
